theory Spec2Isabelle
  imports Complex_Main "HOL-Library.AList"
begin

section \<open>Python values used by \<open>main.py\<close>\<close>

text \<open>
  A Python \<open>str\<close> is a sequence of Unicode code points, so it is modelled as a list of
  naturals; \<open>ascii\<close> embeds an ASCII literal. The Chinese literals of the source are
  written out as their code points.
\<close>

type_synonym pystr = "nat list"

definition ascii :: "string \<Rightarrow> pystr" where
  "ascii s = map of_char s"

text \<open>
  What \<open>json.load\<close> can return. A Python \<open>dict\<close> keeps insertion order and has
  unique keys: it is an association list, read with \<open>map_of\<close> and written with
  \<open>AList.update\<close> (an existing key keeps its place, a new key goes to the end, as
  \<open>d[k] = v\<close> does). Python floats are abstracted to reals.
\<close>

datatype json =
    JNull
  | JBool bool
  | JInt int
  | JFloat real
  | JStr pystr
  | JArr "json list"
  | JObj "(pystr \<times> json) list"

type_synonym pydict = "(pystr \<times> json) list"

datatype pyerror = TypeError | ValueError | AttributeError | OSError

section \<open>\<open>load_config\<close>\<close>

text \<open>
  The state of \<open>config.json\<close> next to the script, as \<open>load_config\<close> sees it:
  \<open>cfg_path.exists()\<close> is false (\<open>NoFile\<close>); the file exists but \<open>open\<close> or
  \<open>json.load\<close> raises (\<open>BadFile\<close>); or \<open>json.load\<close> returns a value.
\<close>

datatype cfg_file = NoFile | BadFile | Parsed json

definition default_title :: pystr where
  "default_title = [0x7535, 0x5b50, 0x9605, 0x89c8, 0x5ba4, 0x89c4, 0x7ae0, 0x5236, 0x5ea6]"

definition default_window :: pydict where
  "default_window = [(ascii ''width'', JInt 900), (ascii ''height'', JInt 600)]"

definition default_cfg :: pydict where
  "default_cfg =
     [(ascii ''title'', JStr default_title),
      (ascii ''lock_seconds'', JInt 5),
      (ascii ''window'', JObj default_window),
      (ascii ''font_point_size'', JInt 12),
      (ascii ''requirements_markdown'', JStr (ascii ''rules.md''))]"

text \<open>
  \<open>for k, v in default.items(): if k not in data: data[k] = v\<close>, on a dict \<open>data\<close>.
\<close>

fun merge_defaults :: "pydict \<Rightarrow> pydict \<Rightarrow> pydict" where
  "merge_defaults [] data = data"
| "merge_defaults ((k, v) # kvs) data =
     merge_defaults kvs (if map_of data k = None then AList.update k v data else data)"

text \<open>
  The body of the \<open>try\<close> after \<open>json.load\<close> has returned \<open>data\<close>. On a value that
  is not a dict every path raises \<open>TypeError\<close>: \<open>k not in data\<close> raises on
  \<open>None\<close>, a bool or a number; on a list or a string either \<open>data[k] = v\<close> raises
  (a key is absent) or, when all five keys are found, \<open>data["window"]\<close> raises.
\<close>

fun merge_body :: "json \<Rightarrow> pyerror + pydict" where
  "merge_body (JObj data) =
     (let data1 = merge_defaults default_cfg data in
      case map_of data1 (ascii ''window'') of
        Some (JObj w) \<Rightarrow>
          Inr (AList.update (ascii ''window'') (JObj (merge_defaults default_window w)) data1)
      | _ \<Rightarrow> Inr (AList.update (ascii ''window'') (JObj default_window) data1))"
| "merge_body _ = Inl TypeError"

definition load_config :: "cfg_file \<Rightarrow> pydict" where
  "load_config f =
     (case f of
        NoFile \<Rightarrow> default_cfg
      | BadFile \<Rightarrow> default_cfg
      | Parsed data \<Rightarrow>
          (case merge_body data of
             Inl e \<Rightarrow> default_cfg
           | Inr merged \<Rightarrow> merged))"

section \<open>\<open>load_rules_html\<close>\<close>

text \<open>
  Python's \<open>s.replace(old, new)\<close>: every non-overlapping occurrence of \<open>old\<close>, found
  from the left, becomes \<open>new\<close>; with an empty \<open>old\<close>, \<open>new\<close> is put before every
  character and at the end.
\<close>

function str_replace :: "'a list \<Rightarrow> 'a list \<Rightarrow> 'a list \<Rightarrow> 'a list" where
  "str_replace old new [] = (if old = [] then new else [])"
| "str_replace old new (c # cs) =
     (if old = [] then new @ c # str_replace old new cs
      else if take (length old) (c # cs) = old
        then new @ str_replace old new (drop (length old) (c # cs))
      else c # str_replace old new cs)"
  by pat_completeness auto
termination
  by (relation "measure (\<lambda>(old, new, s). length s)") auto

text \<open>
  The rules file at \<open>base / markdown_file\<close>: \<open>md_path.exists()\<close> is false
  (\<open>NoRules\<close>); it exists but \<open>read_text\<close> raises (\<open>Unreadable\<close>, for example a
  directory, a file without read permission, bytes that are not UTF-8); or it is read.
\<close>

datatype rules_file = NoRules | Unreadable pyerror | Text pystr

definition placeholder_html :: pystr where
  "placeholder_html =
     [0x3c, 0x70, 0x3e, 0x89c4, 0x5219, 0x5185, 0x5bb9, 0x672a, 0x627e, 0x5230, 0x3002,
      0x3c, 0x2f, 0x70, 0x3e]"

definition signature_par :: pystr where
  "signature_par = [0x6842, 0x6797, 0x4e2d, 0x5b66, 0x56fe, 0x4e66, 0x9986] @ ascii ''</p>''"

definition date_par :: pystr where
  "date_par = ascii ''2025'' @ [0x5e74] @ ascii ''10'' @ [0x6708] @ ascii ''1'' @ [0x65e5]
     @ ascii ''</p>''"

definition right_aligned :: pystr where
  "right_aligned = ascii ''<p style='' @ [34] @ ascii ''text-align: right;'' @ [34] @ ascii ''>''"

definition style_header :: pystr where
  "style_header =
     [10] @ ascii ''        <style>'' @
     [10] @ ascii ''            h1 { text-align: center; }'' @
     [10] @ ascii ''        </style>'' @
     [10] @ ascii ''        ''"

text \<open>
  \<open>markdown\<close> is the imported module's \<open>markdown.markdown\<close>, or \<open>None\<close> when the
  import failed; \<open>fs\<close> gives the state of the file a path names.
\<close>

definition load_rules_html ::
  "(pystr \<Rightarrow> pystr) option \<Rightarrow> (pystr \<Rightarrow> rules_file) \<Rightarrow> pystr \<Rightarrow> pyerror + pystr" where
  "load_rules_html markdown fs markdown_file =
     (case fs markdown_file of
        NoRules \<Rightarrow> Inr placeholder_html
      | Unreadable e \<Rightarrow> Inl e
      | Text txt \<Rightarrow>
          (case markdown of
             Some render \<Rightarrow>
               (let html_content = render txt;
                    html_content = str_replace (ascii ''<p>'' @ signature_par)
                                     (right_aligned @ signature_par) html_content;
                    html_content = str_replace (ascii ''<p>'' @ date_par)
                                     (right_aligned @ date_par) html_content
                in Inr (style_header @ html_content @ [10] @ ascii ''        ''))
           | None \<Rightarrow>
               Inr (ascii ''<pre>'' @
                    str_replace (ascii ''>'') (ascii ''&gt;'')
                      (str_replace (ascii ''<'') (ascii ''&lt;'')
                        (str_replace (ascii ''&'') (ascii ''&amp;'') txt)) @
                    ascii ''</pre>'')))"

section \<open>The window and the platform it drives\<close>

text \<open>
  The label \<open>info\<close> shows one of three texts, each a fixed Chinese sentence around at
  most one number: the text set by \<open>__init__\<close> (with \<open>lock_seconds\<close>), the text set by
  \<open>update_info\<close> (with \<open>remaining\<close>), and the text set by \<open>release_enforcement\<close>.
\<close>

datatype info_text = InitText int | CountdownText int | ReleasedText

datatype content = Html pystr | Plain pystr

text \<open>
  A \<open>QTimer\<close> object: the slot its \<open>timeout\<close> signal is connected to, its interval in
  milliseconds and whether it is running. Timers are children of the window and live in
  the store \<open>timers\<close>; the attributes \<open>_mouse_lock_timer\<close> and \<open>_countdown_timer\<close>
  hold an index into it, or \<open>None\<close>.
\<close>

datatype slot = hold_cursor_center_slot | tick_slot

record qtimer =
  timeout_slot :: slot
  interval :: nat
  active :: bool

text \<open>
  What the platform answers during one call of a method: the handle returned by
  \<open>SetWindowsHookExW\<close> (\<open>None\<close> when a call inside the \<open>try\<close> raises; the handle
  \<open>0\<close> is \<open>NULL\<close>, no hook installed); what \<open>UnhookWindowsHookEx\<close> does
  (\<open>None\<close> when the call raises, \<open>Some False\<close> when it returns \<open>0\<close> and the hook
  stays, \<open>Some True\<close> when it removes the hook); whether each of the other WinAPI
  calls raises; and the available geometry \<open>(x, y, width, height)\<close> of the primary
  screen, if any. The source ignores the value \<open>UnhookWindowsHookEx\<close> returns.
\<close>

record api =
  SetWindowsHookExW_result :: "int option"
  ShowCursor_raises :: bool
  UnhookWindowsHookEx_result :: "bool option"
  SetWindowPos_raises :: bool
  SetCursorPos_raises :: bool
  primaryScreen :: "(int \<times> int \<times> int \<times> int) option"

text \<open>
  The attributes of \<open>ReadWindow\<close> (without the leading underscore), the widgets it owns,
  and the part of the process and of the operating system its methods act on:
  \<open>info_setText_calls\<close> counts the calls of \<open>info.setText\<close> (each one a redraw of the
  label), \<open>os_cursor_count\<close> is the display counter \<open>ShowCursor\<close> increments and
  decrements, \<open>os_hooks\<close> the low-level keyboard hooks this process has installed,
  \<open>exit_code\<close> the argument of \<open>sys.exit\<close> once it has been called. Monotonic clock
  readings are reals.
\<close>

record ReadWindow =
  IS_WINDOWS :: bool
  lock_seconds :: int
  remaining :: int
  deadline :: "real option"
  mouse_lock_timer :: "nat option"
  countdown_timer :: "nat option"
  kb_hook :: "int option"
  kb_proc :: bool
  cursor_hidden :: bool
  title :: pystr
  width :: int
  height :: int
  pos :: "int \<times> int"
  font_point_size :: int
  text_browser :: content
  info :: info_text
  info_setText_calls :: nat
  close_btn_enabled :: bool
  visible :: bool
  topmost :: bool
  raised :: bool
  timers :: "qtimer list"
  os_cursor_count :: int
  os_cursor_pos :: "int \<times> int"
  os_hooks :: "int set"
  quit_called :: bool
  exit_code :: "int option"

subsection \<open>\<open>__init__\<close>\<close>

text \<open>
  Python's \<open>int(x)\<close> on a value from the configuration. Parsing a string is the
  library's: \<open>parse\<close> gives the integer a string denotes, if any.
\<close>

fun py_int :: "(pystr \<Rightarrow> int option) \<Rightarrow> json \<Rightarrow> pyerror + int" where
  "py_int parse (JInt n) = Inr n"
| "py_int parse (JBool b) = Inr (if b then 1 else 0)"
| "py_int parse (JFloat r) = Inr (if 0 \<le> r then \<lfloor>r\<rfloor> else \<lceil>r\<rceil>)"
| "py_int parse (JStr s) = (case parse s of None \<Rightarrow> Inl ValueError | Some n \<Rightarrow> Inr n)"
| "py_int parse _ = Inl TypeError"

text \<open>\<open>d.get(k, dflt)\<close>.\<close>

definition dict_get :: "pydict \<Rightarrow> pystr \<Rightarrow> json \<Rightarrow> json" where
  "dict_get d k dflt = (case map_of d k of None \<Rightarrow> dflt | Some v \<Rightarrow> v)"

text \<open>
  \<open>max(1, int(cfg_lock if cfg_lock is not None else lock_seconds))\<close>, with
  \<open>cfg_lock = CFG.get("lock_seconds")\<close>: a missing key and a JSON \<open>null\<close> both give
  \<open>None\<close>, and then the constructor's argument is used.
\<close>

definition effective_lock_seconds ::
  "(pystr \<Rightarrow> int option) \<Rightarrow> pydict \<Rightarrow> int \<Rightarrow> pyerror + int" where
  "effective_lock_seconds parse CFG lock_seconds_arg =
     (let cfg_lock = dict_get CFG (ascii ''lock_seconds'') JNull in
      case py_int parse (if cfg_lock \<noteq> JNull then cfg_lock else JInt lock_seconds_arg) of
        Inl e \<Rightarrow> Inl e
      | Inr n \<Rightarrow> Inr (max 1 n))"

text \<open>
  The constructor. \<open>CFG\<close> is always a dict (\<open>load_config\<close> returns one on every path).
  \<open>setWindowTitle\<close> needs a string and \<open>win.get\<close> needs \<open>win\<close> to be a dict;
  \<open>setHtml\<close> is given a string and does not raise.
\<close>

definition init ::
  "(pystr \<Rightarrow> int option) \<Rightarrow> bool \<Rightarrow> pydict \<Rightarrow> pystr \<Rightarrow> int \<Rightarrow> pyerror + ReadWindow" where
  "init parse is_windows CFG RULES_HTML lock_seconds_arg =
     (case effective_lock_seconds parse CFG lock_seconds_arg of
        Inl e \<Rightarrow> Inl e
      | Inr ls \<Rightarrow>
     (case dict_get CFG (ascii ''title'') (JStr default_title) of
        JStr ttl \<Rightarrow>
          (case dict_get CFG (ascii ''window'') (JObj []) of
             JObj win \<Rightarrow>
               (case py_int parse (dict_get win (ascii ''width'') (JInt 900)) of
                  Inl e \<Rightarrow> Inl e
                | Inr w \<Rightarrow>
               (case py_int parse (dict_get win (ascii ''height'') (JInt 600)) of
                  Inl e \<Rightarrow> Inl e
                | Inr h \<Rightarrow>
               (case py_int parse (dict_get CFG (ascii ''font_point_size'') (JInt 12)) of
                  Inl e \<Rightarrow> Inl e
                | Inr fps \<Rightarrow>
                    Inr \<lparr>IS_WINDOWS = is_windows,
                         lock_seconds = ls,
                         remaining = ls,
                         deadline = None,
                         mouse_lock_timer = None,
                         countdown_timer = None,
                         kb_hook = None,
                         kb_proc = False,
                         cursor_hidden = False,
                         title = ttl,
                         width = w,
                         height = h,
                         pos = (0, 0),
                         font_point_size = fps,
                         text_browser = Html RULES_HTML,
                         info = InitText ls,
                         info_setText_calls = 1,
                         close_btn_enabled = False,
                         visible = False,
                         topmost = False,
                         raised = False,
                         timers = [],
                         os_cursor_count = 0,
                         os_cursor_pos = (0, 0),
                         os_hooks = {},
                         quit_called = False,
                         exit_code = None\<rparr>)))
           | _ \<Rightarrow> Inl AttributeError)
      | _ \<Rightarrow> Inl TypeError))"

subsection \<open>Placement\<close>

definition center_on_screen :: "api \<Rightarrow> ReadWindow \<Rightarrow> ReadWindow" where
  "center_on_screen a s =
     (case primaryScreen a of
        None \<Rightarrow> s
      | Some (gx, gy, gw, gh) \<Rightarrow>
          s\<lparr>pos := (gx + (gw - width s) div 2, gy + (gh - height s) div 2)\<rparr>)"

definition force_topmost :: "api \<Rightarrow> ReadWindow \<Rightarrow> ReadWindow" where
  "force_topmost a s =
     (let s1 = (if IS_WINDOWS s \<and> \<not> SetWindowPos_raises a then s\<lparr>topmost := True\<rparr> else s)
      in s1\<lparr>raised := True\<rparr>)"

definition center_point :: "api \<Rightarrow> ReadWindow \<Rightarrow> int \<times> int" where
  "center_point a s =
     (case (case primaryScreen a of
              Some geo \<Rightarrow> geo
            | None \<Rightarrow> (fst (pos s), snd (pos s), width s, height s)) of
        (gx, gy, gw, gh) \<Rightarrow> (gx + gw div 2, gy + gh div 2))"

definition hold_cursor_center :: "api \<Rightarrow> ReadWindow \<Rightarrow> ReadWindow" where
  "hold_cursor_center a s =
     (if \<not> IS_WINDOWS s then s
      else if SetCursorPos_raises a then s
      else s\<lparr>os_cursor_pos := center_point a s\<rparr>)"

subsection \<open>The keyboard hook\<close>

definition WM_KEYDOWN :: nat where "WM_KEYDOWN = 0x0100"
definition WM_KEYUP :: nat where "WM_KEYUP = 0x0101"
definition WM_SYSKEYDOWN :: nat where "WM_SYSKEYDOWN = 0x0104"
definition WM_SYSKEYUP :: nat where "WM_SYSKEYUP = 0x0105"

text \<open>
  The callback \<open>low_level_proc\<close> closes over \<open>self\<close>: it reads \<open>self.remaining\<close> at
  the time of the event. It returns \<open>1\<close> (\<open>Block\<close>) or hands the event to
  \<open>CallNextHookEx\<close> (\<open>PassThrough\<close>).
\<close>

datatype lresult = Block | PassThrough

definition low_level_proc :: "ReadWindow \<Rightarrow> int \<Rightarrow> nat \<Rightarrow> lresult" where
  "low_level_proc s nCode wParam =
     (if 0 < remaining s \<and> nCode = 0 \<and>
         wParam \<in> set [WM_KEYDOWN, WM_SYSKEYDOWN, WM_KEYUP, WM_SYSKEYUP]
      then Block else PassThrough)"

text \<open>
  What happens to a key event. Without a hook of this process the event goes its normal
  way. With one installed the operating system calls the callback, which exists only as
  long as \<open>self._kb_proc\<close> refers to it (the attribute is the only reference, kept
  "to avoid GC"): its answer decides. Once the reference is dropped while a hook is
  still installed, the system calls a callback that is gone, and nothing can be said of
  the event (\<open>None\<close>).
\<close>

definition key_event :: "ReadWindow \<Rightarrow> int \<Rightarrow> nat \<Rightarrow> lresult option" where
  "key_event s nCode wParam =
     (if os_hooks s = {} then Some PassThrough
      else if kb_proc s then Some (low_level_proc s nCode wParam)
      else None)"

text \<open>Truth value of \<open>self._kb_hook\<close>: \<open>None\<close> and the handle \<open>0\<close> are false.\<close>

definition truthy :: "int option \<Rightarrow> bool" where
  "truthy h = (case h of None \<Rightarrow> False | Some n \<Rightarrow> n \<noteq> 0)"

definition install_keyboard_blocker :: "api \<Rightarrow> ReadWindow \<Rightarrow> ReadWindow" where
  "install_keyboard_blocker a s =
     (if \<not> IS_WINDOWS s \<or> truthy (kb_hook s) then s
      else case SetWindowsHookExW_result a of
             None \<Rightarrow> s\<lparr>kb_hook := None, kb_proc := False\<rparr>
           | Some h \<Rightarrow>
               s\<lparr>kb_proc := True, kb_hook := Some h,
                 os_hooks := (if h \<noteq> 0 then insert h (os_hooks s) else os_hooks s)\<rparr>)"

definition uninstall_keyboard_blocker :: "api \<Rightarrow> ReadWindow \<Rightarrow> ReadWindow" where
  "uninstall_keyboard_blocker a s =
     (if \<not> IS_WINDOWS s then s
      else
        (let s1 = (case kb_hook s of
                     Some h \<Rightarrow>
                       (if h \<noteq> 0 \<and> UnhookWindowsHookEx_result a = Some True
                        then s\<lparr>os_hooks := os_hooks s - {h}\<rparr> else s)
                   | None \<Rightarrow> s)
         in s1\<lparr>kb_hook := None, kb_proc := False\<rparr>))"

subsection \<open>Enforcement\<close>

definition update_info :: "ReadWindow \<Rightarrow> ReadWindow" where
  "update_info s =
     s\<lparr>info := CountdownText (remaining s), info_setText_calls := Suc (info_setText_calls s)\<rparr>"

text \<open>\<open>QTimer(self)\<close>, \<open>timeout.connect(slot)\<close>, \<open>start(ms)\<close>; and \<open>stop()\<close>.\<close>

definition new_timer :: "slot \<Rightarrow> nat \<Rightarrow> ReadWindow \<Rightarrow> ReadWindow" where
  "new_timer sl ms s =
     s\<lparr>timers := timers s @ [\<lparr>timeout_slot = sl, interval = ms, active = True\<rparr>]\<rparr>"

definition stop_timer :: "nat \<Rightarrow> ReadWindow \<Rightarrow> ReadWindow" where
  "stop_timer i s =
     (if i < length (timers s)
      then s\<lparr>timers := (timers s)[i := (timers s ! i)\<lparr>active := False\<rparr>]\<rparr>
      else s)"

text \<open>
  The steps of \<open>start_enforcement\<close> and \<open>release_enforcement\<close>, one definition for
  each statement group of the source, in the order of the source.
\<close>

definition start_mouse_lock_timer :: "ReadWindow \<Rightarrow> ReadWindow" where
  "start_mouse_lock_timer s =
     (new_timer hold_cursor_center_slot 10 s)\<lparr>mouse_lock_timer := Some (length (timers s))\<rparr>"

definition hide_cursor :: "api \<Rightarrow> ReadWindow \<Rightarrow> ReadWindow" where
  "hide_cursor a s =
     (if IS_WINDOWS s
      then (if ShowCursor_raises a then s\<lparr>cursor_hidden := False\<rparr>
            else s\<lparr>os_cursor_count := os_cursor_count s - 1, cursor_hidden := True\<rparr>)
      else s)"

definition start_countdown_timer :: "ReadWindow \<Rightarrow> ReadWindow" where
  "start_countdown_timer s =
     (new_timer tick_slot 250 s)\<lparr>countdown_timer := Some (length (timers s))\<rparr>"

text \<open>
  \<open>start_enforcement\<close> reads the monotonic clock twice: \<open>t0\<close> for the deadline and
  \<open>t1\<close> for the first value of \<open>remaining\<close>.
\<close>

definition start_enforcement :: "api \<Rightarrow> real \<Rightarrow> real \<Rightarrow> ReadWindow \<Rightarrow> ReadWindow" where
  "start_enforcement a t0 t1 s =
     (let s1 = (if IS_WINDOWS s then install_keyboard_blocker a s else s);
          s2 = start_mouse_lock_timer s1;
          s3 = hide_cursor a s2;
          d = t0 + of_int (lock_seconds s3);
          s4 = start_countdown_timer (s3\<lparr>deadline := Some d\<rparr>);
          s5 = update_info (s4\<lparr>remaining := max 0 \<lceil>d - t1\<rceil>\<rparr>)
      in hold_cursor_center a s5)"

definition stop_countdown_timer :: "ReadWindow \<Rightarrow> ReadWindow" where
  "stop_countdown_timer s =
     (case countdown_timer s of
        Some i \<Rightarrow> (stop_timer i s)\<lparr>countdown_timer := None\<rparr>
      | None \<Rightarrow> s)"

definition stop_mouse_lock_timer :: "ReadWindow \<Rightarrow> ReadWindow" where
  "stop_mouse_lock_timer s =
     (case mouse_lock_timer s of
        Some i \<Rightarrow> (stop_timer i s)\<lparr>mouse_lock_timer := None\<rparr>
      | None \<Rightarrow> s)"

definition show_cursor_back :: "api \<Rightarrow> ReadWindow \<Rightarrow> ReadWindow" where
  "show_cursor_back a s =
     (if IS_WINDOWS s \<and> cursor_hidden s
      then (if ShowCursor_raises a then s
            else s\<lparr>os_cursor_count := os_cursor_count s + 1\<rparr>)\<lparr>cursor_hidden := False\<rparr>
      else s)"

definition enable_close :: "ReadWindow \<Rightarrow> ReadWindow" where
  "enable_close s =
     s\<lparr>info := ReleasedText, info_setText_calls := Suc (info_setText_calls s),
       close_btn_enabled := True\<rparr>"

definition release_enforcement :: "api \<Rightarrow> ReadWindow \<Rightarrow> ReadWindow" where
  "release_enforcement a s =
     (let s1 = stop_countdown_timer s;
          s2 = s1\<lparr>deadline := None\<rparr>;
          s3 = stop_mouse_lock_timer s2;
          s4 = show_cursor_back a s3;
          s5 = (if IS_WINDOWS s4 then uninstall_keyboard_blocker a s4 else s4)
      in enable_close s5)"

text \<open>\<open>_tick\<close>, with the clock reading \<open>now\<close>.\<close>

definition tick :: "api \<Rightarrow> real \<Rightarrow> ReadWindow \<Rightarrow> ReadWindow" where
  "tick a now s =
     (case deadline s of
        None \<Rightarrow> s
      | Some d \<Rightarrow>
          (let rem = \<lceil>d - now\<rceil> in
           if rem \<le> 0 then release_enforcement a (s\<lparr>remaining := 0\<rparr>)
           else if rem \<noteq> remaining s then update_info (s\<lparr>remaining := rem\<rparr>)
           else s))"

definition showEvent :: "api \<Rightarrow> real \<Rightarrow> real \<Rightarrow> ReadWindow \<Rightarrow> ReadWindow" where
  "showEvent a t0 t1 s =
     start_enforcement a t0 t1 (force_topmost a (center_on_screen a (s\<lparr>visible := True\<rparr>)))"

subsection \<open>Closing\<close>

text \<open>
  \<open>closeEvent\<close> returns whether the event is accepted, with the window after the
  handler. Qt hides the window on a close request only if the handler accepted the event.
\<close>

definition closeEvent :: "api \<Rightarrow> ReadWindow \<Rightarrow> bool \<times> ReadWindow" where
  "closeEvent a s = (False, force_topmost a s)"

definition close_request :: "api \<Rightarrow> ReadWindow \<Rightarrow> ReadWindow" where
  "close_request a s =
     (case closeEvent a s of
        (accepted, s') \<Rightarrow> if accepted then s'\<lparr>visible := False\<rparr> else s')"

definition safe_close :: "api \<Rightarrow> ReadWindow \<Rightarrow> ReadWindow" where
  "safe_close a s = (release_enforcement a s)\<lparr>quit_called := True, exit_code := Some 0\<rparr>"

text \<open>
  \<open>close_btn.clicked.connect(self.safe_close)\<close>: Qt emits \<open>clicked\<close> for a user's
  click only while the button is enabled.
\<close>

definition click_close_btn :: "api \<Rightarrow> ReadWindow \<Rightarrow> ReadWindow" where
  "click_close_btn a s = (if close_btn_enabled s then safe_close a s else s)"

text \<open>
  A run of countdown ticks, each with its clock reading and the platform's answers:
  the list of the states after each tick.
\<close>

fun ticks :: "(api \<times> real) list \<Rightarrow> ReadWindow \<Rightarrow> ReadWindow list" where
  "ticks [] s = []"
| "ticks ((a, now) # rest) s = tick a now s # ticks rest (tick a now s)"

subsection \<open>Start-up\<close>

text \<open>
  The module level (\<open>CFG\<close>, \<open>RULES_HTML\<close>) followed by \<open>main\<close>: the window is
  constructed with \<open>lock_seconds=5\<close> and shown, which delivers the show event.
  \<open>base / markdown_file\<close> raises \<open>TypeError\<close> unless the configured value is a string.
\<close>

definition main ::
  "(pystr \<Rightarrow> int option) \<Rightarrow> bool \<Rightarrow> (pystr \<Rightarrow> pystr) option \<Rightarrow> cfg_file \<Rightarrow>
   (pystr \<Rightarrow> rules_file) \<Rightarrow> api \<Rightarrow> real \<Rightarrow> real \<Rightarrow> pyerror + ReadWindow" where
  "main parse is_windows markdown cfg fs a t0 t1 =
     (let CFG = load_config cfg in
      case dict_get CFG (ascii ''requirements_markdown'') (JStr (ascii ''rules.md'')) of
        JStr markdown_file \<Rightarrow>
          (case load_rules_html markdown fs markdown_file of
             Inl e \<Rightarrow> Inl e
           | Inr RULES_HTML \<Rightarrow>
               (case init parse is_windows CFG RULES_HTML 5 of
                  Inl e \<Rightarrow> Inl e
                | Inr w \<Rightarrow> Inr (showEvent a t0 t1 w)))
      | _ \<Rightarrow> Inl TypeError)"

subsection \<open>Concrete environments\<close>

text \<open>
  A platform on which every call succeeds and the hook gets the handle \<open>7\<close>; the
  same platform with \<open>UnhookWindowsHookEx\<close> returning \<open>0\<close>; a
  directory without rules file; one whose rules file cannot be read; a string parser
  that accepts nothing.
\<close>

definition quiet_api :: api where
  "quiet_api =
     \<lparr>SetWindowsHookExW_result = Some 7, ShowCursor_raises = False,
      UnhookWindowsHookEx_result = Some True, SetWindowPos_raises = False,
      SetCursorPos_raises = False, primaryScreen = Some (0, 0, 1920, 1080)\<rparr>"

definition failing_unhook_api :: api where
  "failing_unhook_api = quiet_api\<lparr>UnhookWindowsHookEx_result := Some False\<rparr>"

definition no_rules :: "pystr \<Rightarrow> rules_file" where
  "no_rules p = NoRules"

definition unreadable_rules :: "pystr \<Rightarrow> rules_file" where
  "unreadable_rules p = Unreadable OSError"

definition no_parse :: "pystr \<Rightarrow> int option" where
  "no_parse s = None"

text \<open>
  The window the constructor builds on Windows from the default configuration and the
  placeholder content (lemma \<open>init_default\<close> below).
\<close>

definition initial_window :: ReadWindow where
  "initial_window =
     \<lparr>IS_WINDOWS = True, lock_seconds = 5, remaining = 5, deadline = None,
      mouse_lock_timer = None, countdown_timer = None, kb_hook = None, kb_proc = False,
      cursor_hidden = False, title = default_title, width = 900, height = 600,
      pos = (0, 0), font_point_size = 12, text_browser = Html placeholder_html,
      info = InitText 5, info_setText_calls = 1, close_btn_enabled = False,
      visible = False, topmost = False, raised = False, timers = [],
      os_cursor_count = 0, os_cursor_pos = (0, 0), os_hooks = {},
      quit_called = False, exit_code = None\<rparr>"

section \<open>Properties\<close>

subsection \<open>What each step leaves alone\<close>

lemma stop_timer_keeps [simp]:
  "IS_WINDOWS (stop_timer i s) = IS_WINDOWS s"
  "lock_seconds (stop_timer i s) = lock_seconds s"
  "remaining (stop_timer i s) = remaining s"
  "deadline (stop_timer i s) = deadline s"
  "mouse_lock_timer (stop_timer i s) = mouse_lock_timer s"
  "countdown_timer (stop_timer i s) = countdown_timer s"
  "kb_hook (stop_timer i s) = kb_hook s"
  "kb_proc (stop_timer i s) = kb_proc s"
  "cursor_hidden (stop_timer i s) = cursor_hidden s"
  "info (stop_timer i s) = info s"
  "info_setText_calls (stop_timer i s) = info_setText_calls s"
  "close_btn_enabled (stop_timer i s) = close_btn_enabled s"
  "visible (stop_timer i s) = visible s"
  "os_cursor_count (stop_timer i s) = os_cursor_count s"
  "os_hooks (stop_timer i s) = os_hooks s"
  "exit_code (stop_timer i s) = exit_code s"
  by (simp_all add: stop_timer_def)

lemma stop_countdown_timer_keeps [simp]:
  "IS_WINDOWS (stop_countdown_timer s) = IS_WINDOWS s"
  "lock_seconds (stop_countdown_timer s) = lock_seconds s"
  "remaining (stop_countdown_timer s) = remaining s"
  "deadline (stop_countdown_timer s) = deadline s"
  "mouse_lock_timer (stop_countdown_timer s) = mouse_lock_timer s"
  "kb_hook (stop_countdown_timer s) = kb_hook s"
  "kb_proc (stop_countdown_timer s) = kb_proc s"
  "cursor_hidden (stop_countdown_timer s) = cursor_hidden s"
  "info (stop_countdown_timer s) = info s"
  "info_setText_calls (stop_countdown_timer s) = info_setText_calls s"
  "close_btn_enabled (stop_countdown_timer s) = close_btn_enabled s"
  "visible (stop_countdown_timer s) = visible s"
  "os_cursor_count (stop_countdown_timer s) = os_cursor_count s"
  "os_hooks (stop_countdown_timer s) = os_hooks s"
  "exit_code (stop_countdown_timer s) = exit_code s"
  by (simp_all add: stop_countdown_timer_def split: option.splits)

lemma stop_mouse_lock_timer_keeps [simp]:
  "IS_WINDOWS (stop_mouse_lock_timer s) = IS_WINDOWS s"
  "lock_seconds (stop_mouse_lock_timer s) = lock_seconds s"
  "remaining (stop_mouse_lock_timer s) = remaining s"
  "deadline (stop_mouse_lock_timer s) = deadline s"
  "countdown_timer (stop_mouse_lock_timer s) = countdown_timer s"
  "kb_hook (stop_mouse_lock_timer s) = kb_hook s"
  "kb_proc (stop_mouse_lock_timer s) = kb_proc s"
  "cursor_hidden (stop_mouse_lock_timer s) = cursor_hidden s"
  "info (stop_mouse_lock_timer s) = info s"
  "info_setText_calls (stop_mouse_lock_timer s) = info_setText_calls s"
  "close_btn_enabled (stop_mouse_lock_timer s) = close_btn_enabled s"
  "visible (stop_mouse_lock_timer s) = visible s"
  "os_cursor_count (stop_mouse_lock_timer s) = os_cursor_count s"
  "os_hooks (stop_mouse_lock_timer s) = os_hooks s"
  "exit_code (stop_mouse_lock_timer s) = exit_code s"
  by (simp_all add: stop_mouse_lock_timer_def split: option.splits)

lemma show_cursor_back_keeps [simp]:
  "IS_WINDOWS (show_cursor_back a s) = IS_WINDOWS s"
  "lock_seconds (show_cursor_back a s) = lock_seconds s"
  "remaining (show_cursor_back a s) = remaining s"
  "deadline (show_cursor_back a s) = deadline s"
  "mouse_lock_timer (show_cursor_back a s) = mouse_lock_timer s"
  "countdown_timer (show_cursor_back a s) = countdown_timer s"
  "kb_hook (show_cursor_back a s) = kb_hook s"
  "kb_proc (show_cursor_back a s) = kb_proc s"
  "info (show_cursor_back a s) = info s"
  "info_setText_calls (show_cursor_back a s) = info_setText_calls s"
  "close_btn_enabled (show_cursor_back a s) = close_btn_enabled s"
  "visible (show_cursor_back a s) = visible s"
  "timers (show_cursor_back a s) = timers s"
  "os_hooks (show_cursor_back a s) = os_hooks s"
  "exit_code (show_cursor_back a s) = exit_code s"
  by (simp_all add: show_cursor_back_def)

lemma hide_cursor_keeps [simp]:
  "IS_WINDOWS (hide_cursor a s) = IS_WINDOWS s"
  "lock_seconds (hide_cursor a s) = lock_seconds s"
  "remaining (hide_cursor a s) = remaining s"
  "deadline (hide_cursor a s) = deadline s"
  "mouse_lock_timer (hide_cursor a s) = mouse_lock_timer s"
  "countdown_timer (hide_cursor a s) = countdown_timer s"
  "kb_hook (hide_cursor a s) = kb_hook s"
  "kb_proc (hide_cursor a s) = kb_proc s"
  "info (hide_cursor a s) = info s"
  "info_setText_calls (hide_cursor a s) = info_setText_calls s"
  "close_btn_enabled (hide_cursor a s) = close_btn_enabled s"
  "visible (hide_cursor a s) = visible s"
  "timers (hide_cursor a s) = timers s"
  "os_hooks (hide_cursor a s) = os_hooks s"
  "exit_code (hide_cursor a s) = exit_code s"
  by (simp_all add: hide_cursor_def)

lemma install_keyboard_blocker_keeps [simp]:
  "IS_WINDOWS (install_keyboard_blocker a s) = IS_WINDOWS s"
  "lock_seconds (install_keyboard_blocker a s) = lock_seconds s"
  "remaining (install_keyboard_blocker a s) = remaining s"
  "deadline (install_keyboard_blocker a s) = deadline s"
  "mouse_lock_timer (install_keyboard_blocker a s) = mouse_lock_timer s"
  "countdown_timer (install_keyboard_blocker a s) = countdown_timer s"
  "cursor_hidden (install_keyboard_blocker a s) = cursor_hidden s"
  "info (install_keyboard_blocker a s) = info s"
  "info_setText_calls (install_keyboard_blocker a s) = info_setText_calls s"
  "close_btn_enabled (install_keyboard_blocker a s) = close_btn_enabled s"
  "visible (install_keyboard_blocker a s) = visible s"
  "timers (install_keyboard_blocker a s) = timers s"
  "os_cursor_count (install_keyboard_blocker a s) = os_cursor_count s"
  "exit_code (install_keyboard_blocker a s) = exit_code s"
  by (simp_all add: install_keyboard_blocker_def split: option.splits)

lemma uninstall_keyboard_blocker_keeps [simp]:
  "IS_WINDOWS (uninstall_keyboard_blocker a s) = IS_WINDOWS s"
  "lock_seconds (uninstall_keyboard_blocker a s) = lock_seconds s"
  "remaining (uninstall_keyboard_blocker a s) = remaining s"
  "deadline (uninstall_keyboard_blocker a s) = deadline s"
  "mouse_lock_timer (uninstall_keyboard_blocker a s) = mouse_lock_timer s"
  "countdown_timer (uninstall_keyboard_blocker a s) = countdown_timer s"
  "cursor_hidden (uninstall_keyboard_blocker a s) = cursor_hidden s"
  "info (uninstall_keyboard_blocker a s) = info s"
  "info_setText_calls (uninstall_keyboard_blocker a s) = info_setText_calls s"
  "close_btn_enabled (uninstall_keyboard_blocker a s) = close_btn_enabled s"
  "visible (uninstall_keyboard_blocker a s) = visible s"
  "timers (uninstall_keyboard_blocker a s) = timers s"
  "os_cursor_count (uninstall_keyboard_blocker a s) = os_cursor_count s"
  "exit_code (uninstall_keyboard_blocker a s) = exit_code s"
  by (simp_all add: uninstall_keyboard_blocker_def Let_def split: option.splits)

lemma hold_cursor_center_keeps [simp]:
  "IS_WINDOWS (hold_cursor_center a s) = IS_WINDOWS s"
  "lock_seconds (hold_cursor_center a s) = lock_seconds s"
  "remaining (hold_cursor_center a s) = remaining s"
  "deadline (hold_cursor_center a s) = deadline s"
  "mouse_lock_timer (hold_cursor_center a s) = mouse_lock_timer s"
  "countdown_timer (hold_cursor_center a s) = countdown_timer s"
  "kb_hook (hold_cursor_center a s) = kb_hook s"
  "kb_proc (hold_cursor_center a s) = kb_proc s"
  "cursor_hidden (hold_cursor_center a s) = cursor_hidden s"
  "info (hold_cursor_center a s) = info s"
  "info_setText_calls (hold_cursor_center a s) = info_setText_calls s"
  "close_btn_enabled (hold_cursor_center a s) = close_btn_enabled s"
  "visible (hold_cursor_center a s) = visible s"
  "timers (hold_cursor_center a s) = timers s"
  "os_cursor_count (hold_cursor_center a s) = os_cursor_count s"
  "os_hooks (hold_cursor_center a s) = os_hooks s"
  "exit_code (hold_cursor_center a s) = exit_code s"
  by (simp_all add: hold_cursor_center_def)

lemma force_topmost_keeps [simp]:
  "IS_WINDOWS (force_topmost a s) = IS_WINDOWS s"
  "lock_seconds (force_topmost a s) = lock_seconds s"
  "remaining (force_topmost a s) = remaining s"
  "deadline (force_topmost a s) = deadline s"
  "mouse_lock_timer (force_topmost a s) = mouse_lock_timer s"
  "countdown_timer (force_topmost a s) = countdown_timer s"
  "kb_hook (force_topmost a s) = kb_hook s"
  "kb_proc (force_topmost a s) = kb_proc s"
  "cursor_hidden (force_topmost a s) = cursor_hidden s"
  "info (force_topmost a s) = info s"
  "info_setText_calls (force_topmost a s) = info_setText_calls s"
  "close_btn_enabled (force_topmost a s) = close_btn_enabled s"
  "visible (force_topmost a s) = visible s"
  "timers (force_topmost a s) = timers s"
  "os_cursor_count (force_topmost a s) = os_cursor_count s"
  "os_hooks (force_topmost a s) = os_hooks s"
  "exit_code (force_topmost a s) = exit_code s"
  by (simp_all add: force_topmost_def Let_def)

lemma center_on_screen_keeps [simp]:
  "IS_WINDOWS (center_on_screen a s) = IS_WINDOWS s"
  "lock_seconds (center_on_screen a s) = lock_seconds s"
  "remaining (center_on_screen a s) = remaining s"
  "deadline (center_on_screen a s) = deadline s"
  "mouse_lock_timer (center_on_screen a s) = mouse_lock_timer s"
  "countdown_timer (center_on_screen a s) = countdown_timer s"
  "kb_hook (center_on_screen a s) = kb_hook s"
  "kb_proc (center_on_screen a s) = kb_proc s"
  "cursor_hidden (center_on_screen a s) = cursor_hidden s"
  "info (center_on_screen a s) = info s"
  "info_setText_calls (center_on_screen a s) = info_setText_calls s"
  "close_btn_enabled (center_on_screen a s) = close_btn_enabled s"
  "visible (center_on_screen a s) = visible s"
  "timers (center_on_screen a s) = timers s"
  "os_cursor_count (center_on_screen a s) = os_cursor_count s"
  "os_hooks (center_on_screen a s) = os_hooks s"
  "exit_code (center_on_screen a s) = exit_code s"
  by (simp_all add: center_on_screen_def split: option.splits prod.splits)

lemma start_mouse_lock_timer_keeps [simp]:
  "IS_WINDOWS (start_mouse_lock_timer s) = IS_WINDOWS s"
  "lock_seconds (start_mouse_lock_timer s) = lock_seconds s"
  "remaining (start_mouse_lock_timer s) = remaining s"
  "deadline (start_mouse_lock_timer s) = deadline s"
  "countdown_timer (start_mouse_lock_timer s) = countdown_timer s"
  "kb_hook (start_mouse_lock_timer s) = kb_hook s"
  "kb_proc (start_mouse_lock_timer s) = kb_proc s"
  "cursor_hidden (start_mouse_lock_timer s) = cursor_hidden s"
  "info (start_mouse_lock_timer s) = info s"
  "info_setText_calls (start_mouse_lock_timer s) = info_setText_calls s"
  "close_btn_enabled (start_mouse_lock_timer s) = close_btn_enabled s"
  "visible (start_mouse_lock_timer s) = visible s"
  "os_cursor_count (start_mouse_lock_timer s) = os_cursor_count s"
  "os_hooks (start_mouse_lock_timer s) = os_hooks s"
  "exit_code (start_mouse_lock_timer s) = exit_code s"
  by (simp_all add: start_mouse_lock_timer_def new_timer_def)

lemma start_countdown_timer_keeps [simp]:
  "IS_WINDOWS (start_countdown_timer s) = IS_WINDOWS s"
  "lock_seconds (start_countdown_timer s) = lock_seconds s"
  "remaining (start_countdown_timer s) = remaining s"
  "deadline (start_countdown_timer s) = deadline s"
  "mouse_lock_timer (start_countdown_timer s) = mouse_lock_timer s"
  "kb_hook (start_countdown_timer s) = kb_hook s"
  "kb_proc (start_countdown_timer s) = kb_proc s"
  "cursor_hidden (start_countdown_timer s) = cursor_hidden s"
  "info (start_countdown_timer s) = info s"
  "info_setText_calls (start_countdown_timer s) = info_setText_calls s"
  "close_btn_enabled (start_countdown_timer s) = close_btn_enabled s"
  "visible (start_countdown_timer s) = visible s"
  "os_cursor_count (start_countdown_timer s) = os_cursor_count s"
  "os_hooks (start_countdown_timer s) = os_hooks s"
  "exit_code (start_countdown_timer s) = exit_code s"
  by (simp_all add: start_countdown_timer_def new_timer_def)

lemma update_info_keeps [simp]:
  "IS_WINDOWS (update_info s) = IS_WINDOWS s"
  "lock_seconds (update_info s) = lock_seconds s"
  "remaining (update_info s) = remaining s"
  "deadline (update_info s) = deadline s"
  "mouse_lock_timer (update_info s) = mouse_lock_timer s"
  "countdown_timer (update_info s) = countdown_timer s"
  "kb_hook (update_info s) = kb_hook s"
  "kb_proc (update_info s) = kb_proc s"
  "cursor_hidden (update_info s) = cursor_hidden s"
  "close_btn_enabled (update_info s) = close_btn_enabled s"
  "visible (update_info s) = visible s"
  "timers (update_info s) = timers s"
  "os_cursor_count (update_info s) = os_cursor_count s"
  "os_hooks (update_info s) = os_hooks s"
  "exit_code (update_info s) = exit_code s"
  by (simp_all add: update_info_def)

lemma enable_close_keeps [simp]:
  "IS_WINDOWS (enable_close s) = IS_WINDOWS s"
  "lock_seconds (enable_close s) = lock_seconds s"
  "remaining (enable_close s) = remaining s"
  "deadline (enable_close s) = deadline s"
  "mouse_lock_timer (enable_close s) = mouse_lock_timer s"
  "countdown_timer (enable_close s) = countdown_timer s"
  "kb_hook (enable_close s) = kb_hook s"
  "kb_proc (enable_close s) = kb_proc s"
  "cursor_hidden (enable_close s) = cursor_hidden s"
  "visible (enable_close s) = visible s"
  "timers (enable_close s) = timers s"
  "os_cursor_count (enable_close s) = os_cursor_count s"
  "os_hooks (enable_close s) = os_hooks s"
  "exit_code (enable_close s) = exit_code s"
  by (simp_all add: enable_close_def)

subsection \<open>The release sequence\<close>

lemma stop_timer_timers:
  "length (timers (stop_timer i s)) = length (timers s)"
  "k < length (timers s) \<Longrightarrow>
     active (timers (stop_timer i s) ! k) = (k \<noteq> i \<and> active (timers s ! k))"
  by (auto simp: stop_timer_def nth_list_update)

lemma stop_countdown_timer_sets [simp]:
  "countdown_timer (stop_countdown_timer s) = None"
  "length (timers (stop_countdown_timer s)) = length (timers s)"
  by (simp_all add: stop_countdown_timer_def stop_timer_timers split: option.splits)


lemma stop_mouse_lock_timer_sets [simp]:
  "mouse_lock_timer (stop_mouse_lock_timer s) = None"
  "length (timers (stop_mouse_lock_timer s)) = length (timers s)"
  by (simp_all add: stop_mouse_lock_timer_def stop_timer_timers split: option.splits)


lemma show_cursor_back_sets:
  "IS_WINDOWS s \<Longrightarrow> cursor_hidden (show_cursor_back a s) = False"
  "os_cursor_count (show_cursor_back a s) =
     os_cursor_count s + (if IS_WINDOWS s \<and> cursor_hidden s \<and> \<not> ShowCursor_raises a then 1 else 0)"
  by (simp_all add: show_cursor_back_def)

lemma uninstall_keyboard_blocker_sets:
  "IS_WINDOWS s \<Longrightarrow> kb_hook (uninstall_keyboard_blocker a s) = None"
  "IS_WINDOWS s \<Longrightarrow> kb_proc (uninstall_keyboard_blocker a s) = False"
  "os_hooks (uninstall_keyboard_blocker a s) =
     (if IS_WINDOWS s \<and> truthy (kb_hook s) \<and> UnhookWindowsHookEx_result a = Some True
      then os_hooks s - {the (kb_hook s)} else os_hooks s)"
  by (simp_all add: uninstall_keyboard_blocker_def truthy_def Let_def split: option.splits)



lemma show_cursor_back_idle: "\<not> (IS_WINDOWS s \<and> cursor_hidden s) \<Longrightarrow> show_cursor_back a s = s"
  by (simp add: show_cursor_back_def)



lemma release_enforcement_sets [simp]:
  "deadline (release_enforcement a s) = None"
  "countdown_timer (release_enforcement a s) = None"
  "mouse_lock_timer (release_enforcement a s) = None"
  "close_btn_enabled (release_enforcement a s)"
  "info (release_enforcement a s) = ReleasedText"
  "info_setText_calls (release_enforcement a s) = Suc (info_setText_calls s)"
  "length (timers (release_enforcement a s)) = length (timers s)"
  by (simp_all add: release_enforcement_def Let_def enable_close_def)

lemma release_enforcement_keeps [simp]:
  "remaining (release_enforcement a s) = remaining s"
  "IS_WINDOWS (release_enforcement a s) = IS_WINDOWS s"
  "lock_seconds (release_enforcement a s) = lock_seconds s"
  "exit_code (release_enforcement a s) = exit_code s"
  "visible (release_enforcement a s) = visible s"
  by (simp_all add: release_enforcement_def Let_def)

lemma release_enforcement_windows:
  "IS_WINDOWS s \<Longrightarrow> kb_hook (release_enforcement a s) = None"
  "IS_WINDOWS s \<Longrightarrow> kb_proc (release_enforcement a s) = False"
  "IS_WINDOWS s \<Longrightarrow> cursor_hidden (release_enforcement a s) = False"
  by (simp_all add: release_enforcement_def Let_def show_cursor_back_sets uninstall_keyboard_blocker_sets)

lemma release_enforcement_not_windows:
  "\<not> IS_WINDOWS s \<Longrightarrow> kb_hook (release_enforcement a s) = kb_hook s"
  "\<not> IS_WINDOWS s \<Longrightarrow> cursor_hidden (release_enforcement a s) = cursor_hidden s"
  "\<not> IS_WINDOWS s \<Longrightarrow> os_hooks (release_enforcement a s) = os_hooks s"
  by (simp_all add: release_enforcement_def Let_def show_cursor_back_idle)


lemma release_enforcement_os_hooks:
  "os_hooks (release_enforcement a s) =
     (if IS_WINDOWS s \<and> truthy (kb_hook s) \<and> UnhookWindowsHookEx_result a = Some True
      then os_hooks s - {the (kb_hook s)} else os_hooks s)"
  by (simp add: release_enforcement_def Let_def uninstall_keyboard_blocker_sets)




subsection \<open>The countdown tick\<close>


lemma tick_release:
  "deadline s = Some d \<Longrightarrow> d \<le> now \<Longrightarrow>
     tick a now s = release_enforcement a (s\<lparr>remaining := 0\<rparr>)"
  by (simp add: tick_def Let_def)



lemma tick_remaining:
  "deadline s = Some d \<Longrightarrow> remaining (tick a now s) = max 0 \<lceil>d - now\<rceil>"
  by (simp add: tick_def Let_def update_info_def)

lemma tick_deadline:
  "deadline s = Some d \<Longrightarrow> deadline (tick a now s) = (if now < d then Some d else None)"
  by (simp add: tick_def Let_def update_info_def)

lemma tick_before_deadline_keeps:
  assumes "deadline s = Some d" "now < d"
  shows "IS_WINDOWS (tick a now s) = IS_WINDOWS s"
    and "lock_seconds (tick a now s) = lock_seconds s"
    and "close_btn_enabled (tick a now s) = close_btn_enabled s"
    and "kb_hook (tick a now s) = kb_hook s"
    and "kb_proc (tick a now s) = kb_proc s"
    and "os_hooks (tick a now s) = os_hooks s"
    and "exit_code (tick a now s) = exit_code s"
    and "visible (tick a now s) = visible s"
    and "countdown_timer (tick a now s) = countdown_timer s"
    and "mouse_lock_timer (tick a now s) = mouse_lock_timer s"
    and "timers (tick a now s) = timers s"
    and "cursor_hidden (tick a now s) = cursor_hidden s"
    and "os_cursor_count (tick a now s) = os_cursor_count s"
  using assms by (simp_all add: tick_def Let_def)

lemma tick_before_deadline_info:
  assumes "deadline s = Some d" "now < d" "info s = CountdownText (remaining s)"
  shows "info (tick a now s) = CountdownText (remaining (tick a now s))"
  using assms by (simp add: tick_def Let_def update_info_def)


lemma length_ticks [simp]: "length (ticks evs s) = length evs"
  by (induction evs arbitrary: s) auto

subsection \<open>Starting enforcement\<close>

lemma install_keyboard_blocker_sets:
  "IS_WINDOWS s \<Longrightarrow> \<not> truthy (kb_hook s) \<Longrightarrow>
     kb_hook (install_keyboard_blocker a s) = SetWindowsHookExW_result a"
  "IS_WINDOWS s \<Longrightarrow> \<not> truthy (kb_hook s) \<Longrightarrow>
     os_hooks (install_keyboard_blocker a s) =
       (if truthy (SetWindowsHookExW_result a)
        then insert (the (SetWindowsHookExW_result a)) (os_hooks s) else os_hooks s)"
  by (simp_all add: install_keyboard_blocker_def truthy_def split: option.splits)

lemma start_enforcement_sets [simp]:
  "deadline (start_enforcement a t0 t1 s) = Some (t0 + of_int (lock_seconds s))"
  "remaining (start_enforcement a t0 t1 s) = max 0 \<lceil>t0 + of_int (lock_seconds s) - t1\<rceil>"
  "info (start_enforcement a t0 t1 s) = CountdownText (max 0 \<lceil>t0 + of_int (lock_seconds s) - t1\<rceil>)"
  by (simp_all add: start_enforcement_def Let_def update_info_def)

lemma start_enforcement_keeps [simp]:
  "IS_WINDOWS (start_enforcement a t0 t1 s) = IS_WINDOWS s"
  "lock_seconds (start_enforcement a t0 t1 s) = lock_seconds s"
  "close_btn_enabled (start_enforcement a t0 t1 s) = close_btn_enabled s"
  "exit_code (start_enforcement a t0 t1 s) = exit_code s"
  "visible (start_enforcement a t0 t1 s) = visible s"
  by (simp_all add: start_enforcement_def Let_def)

lemma start_enforcement_hook:
  "IS_WINDOWS s \<Longrightarrow> \<not> truthy (kb_hook s) \<Longrightarrow>
     kb_hook (start_enforcement a t0 t1 s) = SetWindowsHookExW_result a"
  "IS_WINDOWS s \<Longrightarrow> \<not> truthy (kb_hook s) \<Longrightarrow>
     os_hooks (start_enforcement a t0 t1 s) =
       (if truthy (SetWindowsHookExW_result a)
        then insert (the (SetWindowsHookExW_result a)) (os_hooks s) else os_hooks s)"
  "\<not> IS_WINDOWS s \<Longrightarrow> kb_hook (start_enforcement a t0 t1 s) = kb_hook s"
  "\<not> IS_WINDOWS s \<Longrightarrow> os_hooks (start_enforcement a t0 t1 s) = os_hooks s"
  by (simp_all add: start_enforcement_def Let_def install_keyboard_blocker_sets)

lemma showEvent_sets [simp]:
  "deadline (showEvent a t0 t1 s) = Some (t0 + of_int (lock_seconds s))"
  "remaining (showEvent a t0 t1 s) = max 0 \<lceil>t0 + of_int (lock_seconds s) - t1\<rceil>"
  "info (showEvent a t0 t1 s) = CountdownText (max 0 \<lceil>t0 + of_int (lock_seconds s) - t1\<rceil>)"
  "visible (showEvent a t0 t1 s)"
  "IS_WINDOWS (showEvent a t0 t1 s) = IS_WINDOWS s"
  "lock_seconds (showEvent a t0 t1 s) = lock_seconds s"
  "close_btn_enabled (showEvent a t0 t1 s) = close_btn_enabled s"
  "exit_code (showEvent a t0 t1 s) = exit_code s"
  by (simp_all add: showEvent_def)

lemma showEvent_hook:
  "IS_WINDOWS s \<Longrightarrow> \<not> truthy (kb_hook s) \<Longrightarrow>
     kb_hook (showEvent a t0 t1 s) = SetWindowsHookExW_result a"
  "IS_WINDOWS s \<Longrightarrow> \<not> truthy (kb_hook s) \<Longrightarrow>
     os_hooks (showEvent a t0 t1 s) =
       (if truthy (SetWindowsHookExW_result a)
        then insert (the (SetWindowsHookExW_result a)) (os_hooks s) else os_hooks s)"
  "\<not> IS_WINDOWS s \<Longrightarrow> kb_hook (showEvent a t0 t1 s) = kb_hook s"
  "\<not> IS_WINDOWS s \<Longrightarrow> os_hooks (showEvent a t0 t1 s) = os_hooks s"
  by (simp_all add: showEvent_def start_enforcement_hook)

subsection \<open>Configuration\<close>

lemma map_of_merge_defaults:
  "map_of (merge_defaults d data) k =
     (case map_of data k of Some v \<Rightarrow> Some v | None \<Rightarrow> map_of d k)"
  by (induction d data rule: merge_defaults.induct) (auto simp: update_conv' split: option.splits)

lemma window_is_default_key: "map_of default_cfg (ascii ''window'') = Some (JObj default_window)"
  by (simp add: default_cfg_def ascii_def)

lemma merge_body_object:
  "\<exists>merged. merge_body (JObj data) = Inr merged \<and>
     (\<forall>k. k \<noteq> ascii ''window'' \<longrightarrow>
        map_of merged k = (case map_of data k of Some v \<Rightarrow> Some v | None \<Rightarrow> map_of default_cfg k)) \<and>
     map_of merged (ascii ''window'') =
       Some (JObj (case map_of data (ascii ''window'') of
                     Some (JObj w) \<Rightarrow> merge_defaults default_window w
                   | _ \<Rightarrow> default_window))"
proof (cases "map_of data (ascii ''window'')")
  case None
  then have w: "map_of (merge_defaults default_cfg data) (ascii ''window'') = Some (JObj default_window)"
    by (simp add: map_of_merge_defaults window_is_default_key)
  have "merge_defaults default_window default_window = default_window"
    by (simp add: default_window_def ascii_def)
  with None w show ?thesis
    by (simp add: Let_def update_conv' map_of_merge_defaults)
next
  case (Some v)
  then have w: "map_of (merge_defaults default_cfg data) (ascii ''window'') = Some v"
    by (simp add: map_of_merge_defaults)
  with Some show ?thesis
    by (cases v) (simp_all add: Let_def update_conv' map_of_merge_defaults)
qed


lemma load_config_object_window:
  "map_of (load_config (Parsed (JObj data))) (ascii ''window'') =
     Some (JObj (case map_of data (ascii ''window'') of
                   Some (JObj w) \<Rightarrow> merge_defaults default_window w
                 | _ \<Rightarrow> default_window))"
  using merge_body_object [of data] by (auto simp: load_config_def)


text \<open>
  A \<open>window\<close> entry that is present but is not an object is overwritten by the default
  window.
\<close>

lemma load_config_window_not_object:
  "map_of data (ascii ''window'') = Some v \<Longrightarrow> \<forall>w. v \<noteq> JObj w \<Longrightarrow>
     map_of (load_config (Parsed (JObj data))) (ascii ''window'') = Some (JObj default_window)"
  by (cases v) (simp_all add: load_config_object_window)



text \<open>
  C7. A configuration file whose parsed content is exactly \<open>{"lock_seconds": 10}\<close> gives
  the default record with \<open>lock_seconds\<close> set to \<open>10\<close>.
\<close>

theorem load_config_lock_seconds_10:
  "map_of (load_config (Parsed (JObj [(ascii ''lock_seconds'', JInt 10)]))) =
     (map_of default_cfg)(ascii ''lock_seconds'' \<mapsto> JInt 10)"
  by (rule ext) (simp add: load_config_def default_cfg_def default_window_def ascii_def)

subsection \<open>The constructor\<close>


lemma init_lock_seconds:
  assumes "init parse isw CFG html arg = Inr w"
  shows "effective_lock_seconds parse CFG arg = Inr (lock_seconds w)"
    and "remaining w = lock_seconds w"
    and "deadline w = None"
    and "\<not> close_btn_enabled w"
    and "IS_WINDOWS w = isw"
    and "kb_hook w = None"
    and "os_hooks w = {}"
    and "exit_code w = None"
    and "text_browser w = Html html"
  using assms
  by (auto simp: init_def split: sum.splits json.splits)





subsection \<open>Close requests\<close>

lemma close_request_is_force_topmost: "close_request a s = force_topmost a s"
  by (simp add: close_request_def closeEvent_def)

text \<open>
  C9. A close request is always rejected: \<open>closeEvent\<close> does not accept the event, the
  window stays as visible as it was, and the handler changes nothing of the enforcement
  state (countdown, deadline, timers, hook, cursor, dismiss control, label, exit status).
\<close>

theorem closeEvent_rejects_and_keeps_enforcement:
  "\<not> fst (closeEvent a s) \<and>
   visible (close_request a s) = visible s \<and>
   remaining (close_request a s) = remaining s \<and>
   deadline (close_request a s) = deadline s \<and>
   lock_seconds (close_request a s) = lock_seconds s \<and>
   countdown_timer (close_request a s) = countdown_timer s \<and>
   mouse_lock_timer (close_request a s) = mouse_lock_timer s \<and>
   timers (close_request a s) = timers s \<and>
   kb_hook (close_request a s) = kb_hook s \<and>
   kb_proc (close_request a s) = kb_proc s \<and>
   os_hooks (close_request a s) = os_hooks s \<and>
   cursor_hidden (close_request a s) = cursor_hidden s \<and>
   os_cursor_count (close_request a s) = os_cursor_count s \<and>
   close_btn_enabled (close_request a s) = close_btn_enabled s \<and>
   info (close_request a s) = info s \<and>
   info_setText_calls (close_request a s) = info_setText_calls s \<and>
   exit_code (close_request a s) = exit_code s"
  by (simp add: close_request_is_force_topmost) (simp add: closeEvent_def)

subsection \<open>The rules file\<close>

lemma load_rules_html_missing:
  "fs markdown_file = NoRules \<Longrightarrow> load_rules_html markdown fs markdown_file = Inr placeholder_html"
  by (simp add: load_rules_html_def)

lemma load_rules_html_unreadable:
  "fs markdown_file = Unreadable e \<Longrightarrow> load_rules_html markdown fs markdown_file = Inl e"
  by (simp add: load_rules_html_def)

lemma requirements_markdown_default:
  "dict_get default_cfg (ascii ''requirements_markdown'') (JStr (ascii ''rules.md''))
     = JStr (ascii ''rules.md'')"
  by (simp add: dict_get_def default_cfg_def ascii_def)

text \<open>
  With the rules file missing, start-up with the default configuration goes on: the
  browser shows the placeholder and the countdown has started.
\<close>

lemma main_rules_missing:
  "\<exists>s. main no_parse True None NoFile no_rules quiet_api 0 0 = Inr s \<and>
       text_browser s = Html placeholder_html \<and> deadline s = Some 5 \<and> remaining s = 5"
proof -
  have "\<exists>w. init no_parse True default_cfg placeholder_html 5 = Inr w \<and> lock_seconds w = 5"
    by (simp add: init_def effective_lock_seconds_def dict_get_def
        default_cfg_def default_window_def ascii_def Let_def)
  then obtain w where w: "init no_parse True default_cfg placeholder_html 5 = Inr w"
    and l: "lock_seconds w = 5" by blast
  have "text_browser (showEvent quiet_api 0 0 w) = Html placeholder_html"
    using init_lock_seconds(9) [OF w]
    by (simp add: showEvent_def start_enforcement_def Let_def update_info_def
        hold_cursor_center_def start_countdown_timer_def new_timer_def hide_cursor_def
        start_mouse_lock_timer_def install_keyboard_blocker_def force_topmost_def
        center_on_screen_def quiet_api_def)
  with w l show ?thesis
    by (simp add: main_def Let_def load_config_def requirements_markdown_default
        load_rules_html_missing no_rules_def)
qed

text \<open>
  C2. The rules file exists but cannot be read (here: \<open>read_text\<close> raises \<open>OSError\<close>):
  \<open>load_rules_html\<close> raises instead of returning the placeholder, and start-up ends
  with that error.
\<close>

theorem load_rules_html_unreadable_raises:
  "load_rules_html None unreadable_rules (ascii ''rules.md'') = Inl OSError \<and>
   main no_parse True None NoFile unreadable_rules quiet_api 0 0 = Inl OSError"
  by (simp add: main_def Let_def load_config_def requirements_markdown_default
      load_rules_html_unreadable unreadable_rules_def)

subsection \<open>Runs of ticks\<close>



lemma ticks_before_deadline:
  assumes "deadline s = Some d" and "\<forall>e \<in> set evs. snd e < d"
    and "s' \<in> set (ticks evs s)"
  shows "deadline s' = Some d \<and> 0 < remaining s' \<and>
         IS_WINDOWS s' = IS_WINDOWS s \<and> close_btn_enabled s' = close_btn_enabled s \<and>
         kb_hook s' = kb_hook s \<and> kb_proc s' = kb_proc s \<and> os_hooks s' = os_hooks s \<and>
         exit_code s' = exit_code s"
  using assms
proof (induction evs arbitrary: s)
  case Nil
  then show ?case by simp
next
  case (Cons e evs)
  obtain a now where e: "e = (a, now)" by (cases e)
  let ?s = "tick a now s"
  from Cons.prems(2) e have lt: "now < d" and rest: "\<forall>e \<in> set evs. snd e < d" by simp_all
  note keep = tick_before_deadline_keeps [OF Cons.prems(1) lt, of a]
  have dl: "deadline ?s = Some d" using Cons.prems(1) lt by (simp add: tick_deadline)
  have pos: "0 < remaining ?s" using Cons.prems(1) lt by (simp add: tick_remaining)
  from Cons.prems(3) e have "s' = ?s \<or> s' \<in> set (ticks evs ?s)" by simp
  then show ?case
  proof
    assume "s' = ?s"
    with dl pos keep show ?thesis by simp
  next
    assume "s' \<in> set (ticks evs ?s)"
    from Cons.IH [OF dl rest this] keep show ?thesis by simp
  qed
qed

lemma ticks_before_deadline_info:
  assumes "deadline s = Some d" and "\<forall>e \<in> set evs. snd e < d"
    and "info s = CountdownText (remaining s)" and "s' \<in> set (ticks evs s)"
  shows "info s' = CountdownText (remaining s')"
  using assms
proof (induction evs arbitrary: s)
  case Nil
  then show ?case by simp
next
  case (Cons e evs)
  obtain a now where e: "e = (a, now)" by (cases e)
  let ?s = "tick a now s"
  from Cons.prems(2) e have lt: "now < d" and rest: "\<forall>e \<in> set evs. snd e < d" by simp_all
  have dl: "deadline ?s = Some d" using Cons.prems(1) lt by (simp add: tick_deadline)
  have inf: "info ?s = CountdownText (remaining ?s)"
    using Cons.prems(1) lt Cons.prems(3) by (rule tick_before_deadline_info)
  from Cons.prems(4) e have "s' = ?s \<or> s' \<in> set (ticks evs ?s)" by simp
  then show ?case using inf Cons.IH [OF dl rest inf] by blast
qed



subsection \<open>The default window\<close>

lemma init_default: "init no_parse True default_cfg placeholder_html 5 = Inr initial_window"
  by (simp add: init_def effective_lock_seconds_def dict_get_def default_cfg_def
      default_window_def ascii_def Let_def initial_window_def)

lemma initial_window_fields [simp]:
  "IS_WINDOWS initial_window"
  "lock_seconds initial_window = 5"
  "remaining initial_window = 5"
  "deadline initial_window = None"
  "kb_hook initial_window = None"
  "\<not> kb_proc initial_window"
  "\<not> cursor_hidden initial_window"
  "os_hooks initial_window = {}"
  "os_cursor_count initial_window = 0"
  "\<not> close_btn_enabled initial_window"
  "exit_code initial_window = None"
  "timers initial_window = []"
  by (simp_all add: initial_window_def)

lemma quiet_api_fields [simp]:
  "SetWindowsHookExW_result quiet_api = Some 7"
  "\<not> ShowCursor_raises quiet_api"
  "UnhookWindowsHookEx_result quiet_api = Some True"
  "SetWindowsHookExW_result failing_unhook_api = Some 7"
  "\<not> ShowCursor_raises failing_unhook_api"
  "UnhookWindowsHookEx_result failing_unhook_api = Some False"
  by (simp_all add: quiet_api_def failing_unhook_api_def)






subsection \<open>Key events\<close>

lemma low_level_proc_expired: "remaining s = 0 \<Longrightarrow> low_level_proc s nCode wParam = PassThrough"
  by (simp add: low_level_proc_def)

lemma low_level_proc_locked:
  "0 < remaining s \<Longrightarrow> wParam \<in> set [WM_KEYDOWN, WM_SYSKEYDOWN, WM_KEYUP, WM_SYSKEYUP] \<Longrightarrow>
     low_level_proc s 0 wParam = Block"
  by (simp add: low_level_proc_def)

lemma low_level_proc_blocks_only_while_counting:
  "low_level_proc s nCode wParam = Block \<Longrightarrow> 0 < remaining s"
  by (simp add: low_level_proc_def split: if_splits)

lemma key_event_no_hook: "os_hooks s = {} \<Longrightarrow> key_event s nCode wParam = Some PassThrough"
  by (simp add: key_event_def)

lemma key_event_callback_alive:
  "os_hooks s \<noteq> {} \<Longrightarrow> kb_proc s \<Longrightarrow>
     key_event s nCode wParam = Some (low_level_proc s nCode wParam)"
  by (simp add: key_event_def)

lemma key_event_callback_gone:
  "os_hooks s \<noteq> {} \<Longrightarrow> \<not> kb_proc s \<Longrightarrow> key_event s nCode wParam = None"
  by (simp add: key_event_def)

lemma release_enforcement_not_windows_proc:
  "\<not> IS_WINDOWS s \<Longrightarrow> kb_proc (release_enforcement a s) = kb_proc s"
  by (simp add: release_enforcement_def Let_def)

lemma tick_expired:
  assumes "deadline s = Some d" "d \<le> now"
  shows "remaining (tick a now s) = 0" and "deadline (tick a now s) = None"
    and "close_btn_enabled (tick a now s)"
    and "IS_WINDOWS (tick a now s) = IS_WINDOWS s"
    and "os_hooks (tick a now s) =
           (if IS_WINDOWS s \<and> truthy (kb_hook s) \<and> UnhookWindowsHookEx_result a = Some True
            then os_hooks s - {the (kb_hook s)} else os_hooks s)"
    and "IS_WINDOWS s \<Longrightarrow> kb_hook (tick a now s) = None"
    and "IS_WINDOWS s \<Longrightarrow> \<not> kb_proc (tick a now s)"
    and "\<not> IS_WINDOWS s \<Longrightarrow> kb_hook (tick a now s) = kb_hook s"
    and "\<not> IS_WINDOWS s \<Longrightarrow> kb_proc (tick a now s) = kb_proc s"
  unfolding tick_release [OF assms]
  by (simp_all add: release_enforcement_os_hooks release_enforcement_windows
      release_enforcement_not_windows release_enforcement_not_windows_proc)

lemma install_keyboard_blocker_proc:
  "IS_WINDOWS s \<Longrightarrow> \<not> truthy (kb_hook s) \<Longrightarrow>
     kb_proc (install_keyboard_blocker a s) = (SetWindowsHookExW_result a \<noteq> None)"
  by (simp add: install_keyboard_blocker_def split: option.splits)

lemma showEvent_proc:
  "IS_WINDOWS s \<Longrightarrow> \<not> truthy (kb_hook s) \<Longrightarrow>
     kb_proc (showEvent a t0 t1 s) = (SetWindowsHookExW_result a \<noteq> None)"
  by (simp add: showEvent_def start_enforcement_def Let_def install_keyboard_blocker_proc)

lemma showEvent_proc_not_windows:
  "\<not> IS_WINDOWS s \<Longrightarrow> kb_proc (showEvent a t0 t1 s) = kb_proc s"
  by (simp add: showEvent_def start_enforcement_def Let_def)

lemma init_proc: "init parse isw CFG html arg = Inr w \<Longrightarrow> \<not> kb_proc w"
  by (auto simp: init_def split: sum.splits json.splits)

text \<open>
  The states around the release used below: the lock cycle of the default window
  started at clock reading \<open>0\<close>, and its release by the tick at \<open>5\<close> on the platform
  whose \<open>UnhookWindowsHookEx\<close> returns \<open>0\<close>.
\<close>

lemma default_cycle_locked:
  "deadline (showEvent quiet_api 0 0 initial_window) = Some 5"
  "remaining (showEvent quiet_api 0 0 initial_window) = 5"
  "kb_hook (showEvent quiet_api 0 0 initial_window) = Some 7"
  "kb_proc (showEvent quiet_api 0 0 initial_window)"
  "os_hooks (showEvent quiet_api 0 0 initial_window) = {7}"
  "IS_WINDOWS (showEvent quiet_api 0 0 initial_window)"
  by (simp_all add: showEvent_hook showEvent_proc truthy_def)

lemma default_cycle_failed_unhook:
  "remaining (tick failing_unhook_api 5 (showEvent quiet_api 0 0 initial_window)) = 0"
  "deadline (tick failing_unhook_api 5 (showEvent quiet_api 0 0 initial_window)) = None"
  "close_btn_enabled (tick failing_unhook_api 5 (showEvent quiet_api 0 0 initial_window))"
  "os_hooks (tick failing_unhook_api 5 (showEvent quiet_api 0 0 initial_window)) = {7}"
  "kb_hook (tick failing_unhook_api 5 (showEvent quiet_api 0 0 initial_window)) = None"
  "\<not> kb_proc (tick failing_unhook_api 5 (showEvent quiet_api 0 0 initial_window))"
proof -
  have d: "deadline (showEvent quiet_api 0 0 initial_window) = Some 5" by simp
  have le: "(5::real) \<le> 5" by simp
  note e = tick_expired [OF d le, of failing_unhook_api]
  show "remaining (tick failing_unhook_api 5 (showEvent quiet_api 0 0 initial_window)) = 0"
    and "deadline (tick failing_unhook_api 5 (showEvent quiet_api 0 0 initial_window)) = None"
    and "close_btn_enabled (tick failing_unhook_api 5 (showEvent quiet_api 0 0 initial_window))"
    and "os_hooks (tick failing_unhook_api 5 (showEvent quiet_api 0 0 initial_window)) = {7}"
    and "kb_hook (tick failing_unhook_api 5 (showEvent quiet_api 0 0 initial_window)) = None"
    and "\<not> kb_proc (tick failing_unhook_api 5 (showEvent quiet_api 0 0 initial_window))"
    using e default_cycle_locked by simp_all
qed

text \<open>
  C10. The guard of the callback is as the claim says (it blocks only while
  \<open>remaining\<close> is positive, lemma \<open>low_level_proc_blocks_only_while_counting\<close>, and
  the tick at or after the deadline sets \<open>remaining\<close> to \<open>0\<close>, lemma \<open>tick_expired\<close>),
  but the degraded case does not forward: when \<open>UnhookWindowsHookEx\<close> fails, the hook
  stays installed while \<open>uninstall_keyboard_blocker\<close> still drops \<open>_kb_proc\<close>, the
  only reference to the callback. After the release of the default lock cycle on such a
  platform the hook \<open>7\<close> is installed, the callback is gone, and a key event does not
  get the answer the callback's code would give.
\<close>

theorem hook_left_installed_without_callback:
  "UnhookWindowsHookEx_result failing_unhook_api = Some False \<and>
   kb_proc (showEvent quiet_api 0 0 initial_window) \<and>
   os_hooks (showEvent quiet_api 0 0 initial_window) = {7} \<and>
   remaining (tick failing_unhook_api 5 (showEvent quiet_api 0 0 initial_window)) = 0 \<and>
   os_hooks (tick failing_unhook_api 5 (showEvent quiet_api 0 0 initial_window)) = {7} \<and>
   \<not> kb_proc (tick failing_unhook_api 5 (showEvent quiet_api 0 0 initial_window)) \<and>
   low_level_proc (tick failing_unhook_api 5 (showEvent quiet_api 0 0 initial_window))
     0 WM_KEYDOWN = PassThrough \<and>
   key_event (tick failing_unhook_api 5 (showEvent quiet_api 0 0 initial_window))
     0 WM_KEYDOWN = None"
  using default_cycle_locked default_cycle_failed_unhook
  by (simp add: low_level_proc_expired key_event_callback_gone)

subsection \<open>The lock cycle from the constructor\<close>

text \<open>
  The states of a lock cycle before the deadline: the state after the show event and
  the states after ticks whose clock readings are all before the deadline.
\<close>

lemma locked_cycle:
  assumes w: "init parse isw CFG html arg = Inr w"
    and t1: "t1 < t0 + of_int (lock_seconds w)"
    and evs: "\<forall>e \<in> set evs. snd e < t0 + of_int (lock_seconds w)"
    and s: "s \<in> set (showEvent a t0 t1 w # ticks evs (showEvent a t0 t1 w))"
  shows "deadline s = Some (t0 + of_int (lock_seconds w))"
    and "0 < remaining s"
    and "\<not> close_btn_enabled s"
    and "exit_code s = None"
    and "IS_WINDOWS s = isw"
    and "isw \<Longrightarrow> kb_hook s = SetWindowsHookExW_result a"
    and "\<not> isw \<Longrightarrow> kb_hook s = None"
    and "\<not> isw \<Longrightarrow> \<not> kb_proc s"
    and "os_hooks s = (if isw \<and> truthy (SetWindowsHookExW_result a)
                       then {the (SetWindowsHookExW_result a)} else {})"
    and "isw \<Longrightarrow> kb_proc s = (SetWindowsHookExW_result a \<noteq> None)"
proof -
  let ?d = "t0 + of_int (lock_seconds w)"
  let ?s0 = "showEvent a t0 t1 w"
  note i = init_lock_seconds [OF w] init_proc [OF w]
  have nt: "\<not> truthy (kb_hook w)" using i(6) by (simp add: truthy_def)
  have d0: "deadline ?s0 = Some ?d" by simp
  have r0: "0 < remaining ?s0" using t1 by simp
  have k0: "isw \<Longrightarrow> kb_hook ?s0 = SetWindowsHookExW_result a"
    "isw \<Longrightarrow> kb_proc ?s0 = (SetWindowsHookExW_result a \<noteq> None)"
    using i(5) nt by (simp_all add: showEvent_hook showEvent_proc)
  have k1: "\<not> isw \<Longrightarrow> kb_hook ?s0 = None" "\<not> isw \<Longrightarrow> \<not> kb_proc ?s0"
    using i(5,6,10) by (simp_all add: showEvent_hook showEvent_proc_not_windows)
  have h0: "os_hooks ?s0 = (if isw \<and> truthy (SetWindowsHookExW_result a)
                       then {the (SetWindowsHookExW_result a)} else {})"
    using i(5,7) nt by (cases isw) (simp_all add: showEvent_hook)
  have c0: "\<not> close_btn_enabled ?s0" "exit_code ?s0 = None" "IS_WINDOWS ?s0 = isw"
    using i(4,5,8) by simp_all
  from s have "s = ?s0 \<or> s \<in> set (ticks evs ?s0)" by simp
  then have "deadline s = Some ?d \<and> 0 < remaining s \<and> IS_WINDOWS s = IS_WINDOWS ?s0 \<and>
      close_btn_enabled s = close_btn_enabled ?s0 \<and> kb_hook s = kb_hook ?s0 \<and>
      kb_proc s = kb_proc ?s0 \<and> os_hooks s = os_hooks ?s0 \<and> exit_code s = exit_code ?s0"
  proof
    assume "s = ?s0"
    with d0 r0 show ?thesis by simp
  next
    assume "s \<in> set (ticks evs ?s0)"
    with ticks_before_deadline [OF d0 evs] show ?thesis by blast
  qed
  with d0 r0 k0 k1 h0 c0
  show "deadline s = Some (t0 + of_int (lock_seconds w))"
    and "0 < remaining s"
    and "\<not> close_btn_enabled s"
    and "exit_code s = None"
    and "IS_WINDOWS s = isw"
    and "isw \<Longrightarrow> kb_hook s = SetWindowsHookExW_result a"
    and "\<not> isw \<Longrightarrow> kb_hook s = None"
    and "\<not> isw \<Longrightarrow> \<not> kb_proc s"
    and "os_hooks s = (if isw \<and> truthy (SetWindowsHookExW_result a)
                       then {the (SetWindowsHookExW_result a)} else {})"
    and "isw \<Longrightarrow> kb_proc s = (SetWindowsHookExW_result a \<noteq> None)"
    by simp_all
qed

text \<open>
  C5, as the claim states it, fails twice. A released state can keep the hook: after
  the release of the default lock cycle on the platform whose \<open>UnhookWindowsHookEx\<close>
  returns \<open>0\<close>, the deadline is \<open>None\<close> and the dismiss control enabled, yet the hook
  \<open>7\<close> is still installed and a key-down does not pass through. And a locked state can
  let keys through: when the second clock reading of \<open>start_enforcement\<close> is already at
  the deadline, the deadline is set, the dismiss control disabled and the hook installed,
  but \<open>remaining\<close> is \<open>0\<close> and the callback passes a key-down on.
\<close>

theorem hook_left_after_release_and_keys_pass_while_locked_counterexample:
  "deadline (tick failing_unhook_api 5 (showEvent quiet_api 0 0 initial_window)) = None \<and>
   close_btn_enabled (tick failing_unhook_api 5 (showEvent quiet_api 0 0 initial_window)) \<and>
   os_hooks (tick failing_unhook_api 5 (showEvent quiet_api 0 0 initial_window)) = {7} \<and>
   key_event (tick failing_unhook_api 5 (showEvent quiet_api 0 0 initial_window))
     0 WM_KEYDOWN \<noteq> Some PassThrough \<and>
   deadline (showEvent quiet_api 0 5 initial_window) = Some 5 \<and>
   \<not> close_btn_enabled (showEvent quiet_api 0 5 initial_window) \<and>
   os_hooks (showEvent quiet_api 0 5 initial_window) = {7} \<and>
   kb_proc (showEvent quiet_api 0 5 initial_window) \<and>
   key_event (showEvent quiet_api 0 5 initial_window) 0 WM_KEYDOWN = Some PassThrough"
proof -
  let ?r = "tick failing_unhook_api 5 (showEvent quiet_api 0 0 initial_window)"
  let ?l = "showEvent quiet_api 0 5 initial_window"
  have "key_event ?r 0 WM_KEYDOWN = None"
    using default_cycle_failed_unhook by (simp add: key_event_callback_gone)
  then have r: "key_event ?r 0 WM_KEYDOWN \<noteq> Some PassThrough" by simp
  have l: "deadline ?l = Some 5" "\<not> close_btn_enabled ?l" "os_hooks ?l = {7}" "kb_proc ?l"
    "remaining ?l = 0"
    by (simp_all add: showEvent_hook showEvent_proc truthy_def)
  then have "key_event ?l 0 WM_KEYDOWN = Some PassThrough"
    by (simp add: key_event_callback_alive low_level_proc_expired)
  with r l default_cycle_failed_unhook show ?thesis by simp
qed

text \<open>
  C5, amended. In every state of a lock cycle whose clock readings are before the
  deadline, \<open>remaining\<close> is positive and the callback swallows every key-down, key-up
  and system-key event; with the hook installed, the event is swallowed. The tick at or
  after the deadline enters the released state: the window then holds neither hook
  handle nor callback, and if no hook was installed or \<open>UnhookWindowsHookEx\<close> removed
  it, no hook of the process is left and every key event passes through.
\<close>

theorem keys_swallowed_before_deadline_and_hook_removed_by_successful_unhook:
  assumes "init parse isw CFG html arg = Inr w"
    and "t1 < t0 + of_int (lock_seconds w)"
    and "\<forall>e \<in> set evs. snd e < t0 + of_int (lock_seconds w)"
    and "s \<in> set (showEvent a t0 t1 w # ticks evs (showEvent a t0 t1 w))"
    and "t0 + of_int (lock_seconds w) \<le> now"
  shows "deadline s = Some (t0 + of_int (lock_seconds w)) \<and> \<not> close_btn_enabled s \<and>
         0 < remaining s \<and>
         (\<forall>wParam \<in> set [WM_KEYDOWN, WM_SYSKEYDOWN, WM_KEYUP, WM_SYSKEYUP].
            low_level_proc s 0 wParam = Block) \<and>
         (isw \<and> truthy (SetWindowsHookExW_result a) \<longrightarrow>
            kb_hook s = SetWindowsHookExW_result a \<and> kb_proc s \<and>
            os_hooks s = {the (SetWindowsHookExW_result a)} \<and>
            (\<forall>wParam \<in> set [WM_KEYDOWN, WM_SYSKEYDOWN, WM_KEYUP, WM_SYSKEYUP].
               key_event s 0 wParam = Some Block)) \<and>
         deadline (tick b now s) = None \<and> close_btn_enabled (tick b now s) \<and>
         remaining (tick b now s) = 0 \<and>
         kb_hook (tick b now s) = None \<and> \<not> kb_proc (tick b now s) \<and>
         (os_hooks s = {} \<or> UnhookWindowsHookEx_result b = Some True \<longrightarrow>
            os_hooks (tick b now s) = {} \<and>
            (\<forall>nCode wParam. key_event (tick b now s) nCode wParam = Some PassThrough))"
proof -
  let ?d = "t0 + of_int (lock_seconds w)"
  let ?r = "tick b now s"
  note l = locked_cycle [OF assms(1-4)]
  have blk: "\<forall>wParam \<in> set [WM_KEYDOWN, WM_SYSKEYDOWN, WM_KEYUP, WM_SYSKEYUP].
      low_level_proc s 0 wParam = Block"
    using l(2) low_level_proc_locked by blast
  have inst: "kb_hook s = SetWindowsHookExW_result a \<and> kb_proc s \<and>
      os_hooks s = {the (SetWindowsHookExW_result a)} \<and>
      (\<forall>wParam \<in> set [WM_KEYDOWN, WM_SYSKEYDOWN, WM_KEYUP, WM_SYSKEYUP].
         key_event s 0 wParam = Some Block)"
    if "isw" "truthy (SetWindowsHookExW_result a)"
  proof -
    from that have p: "kb_proc s" using l(10) by (auto simp: truthy_def)
    from that have h: "os_hooks s = {the (SetWindowsHookExW_result a)}" using l(9) by simp
    from p h blk have "\<forall>wParam \<in> set [WM_KEYDOWN, WM_SYSKEYDOWN, WM_KEYUP, WM_SYSKEYUP].
         key_event s 0 wParam = Some Block"
      by (simp add: key_event_def)
    with that p h l(6) show ?thesis by simp
  qed
  note e = tick_expired [OF l(1) assms(5), of b]
  have fields: "kb_hook ?r = None \<and> \<not> kb_proc ?r"
    using e(6-9) l(5,7,8) by (cases isw) simp_all
  have gone: "os_hooks ?r = {}"
    if "os_hooks s = {} \<or> UnhookWindowsHookEx_result b = Some True"
    using that e(5) l(5,6,9) by (cases isw) (auto simp: truthy_def split: if_splits)
  have pass: "\<forall>nCode wParam. key_event ?r nCode wParam = Some PassThrough"
    if "os_hooks s = {} \<or> UnhookWindowsHookEx_result b = Some True"
    using gone [OF that] by (simp add: key_event_no_hook)
  from l(1,2,3) blk inst e(1,2,3) fields gone pass show ?thesis by blast
qed

theorem keys_swallowed_before_deadline_and_hook_removed_by_successful_unhook_witness:
  "init no_parse True default_cfg placeholder_html 5 = Inr initial_window \<and>
   (1 / 2 :: real) < 0 + of_int (lock_seconds initial_window) \<and>
   UnhookWindowsHookEx_result quiet_api = Some True \<and>
   low_level_proc (tick quiet_api 3 (showEvent quiet_api 0 (1 / 2) initial_window)) 0 WM_SYSKEYUP
     = Block \<and>
   key_event (tick quiet_api 3 (showEvent quiet_api 0 (1 / 2) initial_window)) 0 WM_KEYDOWN
     = Some Block \<and>
   os_hooks (tick quiet_api 3 (showEvent quiet_api 0 (1 / 2) initial_window)) = {7} \<and>
   key_event (tick quiet_api 5
     (tick quiet_api 3 (showEvent quiet_api 0 (1 / 2) initial_window))) 0 WM_KEYDOWN
     = Some PassThrough \<and>
   kb_hook (tick quiet_api 5
     (tick quiet_api 3 (showEvent quiet_api 0 (1 / 2) initial_window))) = None \<and>
   os_hooks (tick quiet_api 5
     (tick quiet_api 3 (showEvent quiet_api 0 (1 / 2) initial_window))) = {}"
proof -
  let ?s0 = "showEvent quiet_api 0 (1 / 2) initial_window"
  have h1: "(1 / 2 :: real) < 0 + of_int (lock_seconds initial_window)" by simp
  have h2: "\<forall>e \<in> set [(quiet_api, 3::real)]. snd e < 0 + of_int (lock_seconds initial_window)"
    by simp
  have h3: "tick quiet_api 3 ?s0 \<in> set (?s0 # ticks [(quiet_api, 3)] ?s0)" by simp
  have h4: "0 + of_int (lock_seconds initial_window) \<le> (5::real)" by simp
  from keys_swallowed_before_deadline_and_hook_removed_by_successful_unhook
    [OF init_default h1 h2 h3 h4, of quiet_api]
  show ?thesis using init_default by (simp add: truthy_def)
qed

subsection \<open>Dismiss\<close>

lemma safe_close_fields:
  "exit_code (safe_close a s) = Some 0"
  "quit_called (safe_close a s)"
  "deadline (safe_close a s) = None"
  "countdown_timer (safe_close a s) = None"
  "mouse_lock_timer (safe_close a s) = None"
  "close_btn_enabled (safe_close a s)"
  "info (safe_close a s) = ReleasedText"
  by (simp_all add: safe_close_def)

text \<open>
  C1, as the claim states it, fails: in the locked state after the show event (deadline
  set, countdown at \<open>5\<close>, dismiss control disabled) \<open>safe_close\<close> is not a no-op; it
  clears the deadline and exits with code \<open>0\<close>.
\<close>

theorem safe_close_while_locked_counterexample:
  "deadline (showEvent quiet_api 0 0 initial_window) = Some 5 \<and>
   remaining (showEvent quiet_api 0 0 initial_window) = 5 \<and>
   \<not> close_btn_enabled (showEvent quiet_api 0 0 initial_window) \<and>
   exit_code (showEvent quiet_api 0 0 initial_window) = None \<and>
   safe_close quiet_api (showEvent quiet_api 0 0 initial_window)
     \<noteq> showEvent quiet_api 0 0 initial_window \<and>
   deadline (safe_close quiet_api (showEvent quiet_api 0 0 initial_window)) = None \<and>
   exit_code (safe_close quiet_api (showEvent quiet_api 0 0 initial_window)) = Some 0"
proof -
  let ?s = "showEvent quiet_api 0 0 initial_window"
  have a: "deadline ?s = Some 5" "remaining ?s = 5" "\<not> close_btn_enabled ?s" "exit_code ?s = None"
    by simp_all
  have b: "deadline (safe_close quiet_api ?s) = None" "exit_code (safe_close quiet_api ?s) = Some 0"
    by (simp_all add: safe_close_fields)
  from a(1) b(1) have "safe_close quiet_api ?s \<noteq> ?s" by auto
  with a b show ?thesis by simp
qed

text \<open>
  C1, amended. \<open>safe_close\<close> has no state check: in every state it runs the release
  sequence and exits with code \<open>0\<close>. Dismiss is held back while locked by the dismiss
  control alone: in every state of a lock cycle before the deadline the control is
  disabled, so a click on it changes nothing and the process goes on; after the tick at
  or after the deadline the control is enabled and a click runs \<open>safe_close\<close>.
\<close>

theorem safe_close_unguarded_dismiss_control_gated:
  assumes "init parse isw CFG html arg = Inr w"
    and "t1 < t0 + of_int (lock_seconds w)"
    and "\<forall>e \<in> set evs. snd e < t0 + of_int (lock_seconds w)"
    and "s \<in> set (showEvent a t0 t1 w # ticks evs (showEvent a t0 t1 w))"
    and "t0 + of_int (lock_seconds w) \<le> now"
  shows "(\<forall>c x. exit_code (safe_close c x) = Some 0 \<and> quit_called (safe_close c x) \<and>
                deadline (safe_close c x) = None \<and> countdown_timer (safe_close c x) = None \<and>
                mouse_lock_timer (safe_close c x) = None \<and> close_btn_enabled (safe_close c x)) \<and>
         \<not> close_btn_enabled s \<and> exit_code s = None \<and>
         click_close_btn b s = s \<and>
         close_btn_enabled (tick b now s) \<and> exit_code (tick b now s) = None \<and>
         click_close_btn c (tick b now s) = safe_close c (tick b now s) \<and>
         exit_code (click_close_btn c (tick b now s)) = Some 0"
proof -
  note l = locked_cycle [OF assms(1-4)]
  note e = tick_expired [OF l(1) assms(5), of b]
  have x: "exit_code (tick b now s) = None"
    unfolding tick_release [OF l(1) assms(5)] using l(4) by simp
  show ?thesis
    using l(3,4) e(3) x by (simp add: safe_close_fields click_close_btn_def)
qed

theorem safe_close_unguarded_dismiss_control_gated_witness:
  "init no_parse True default_cfg placeholder_html 5 = Inr initial_window \<and>
   (1 / 2 :: real) < 0 + of_int (lock_seconds initial_window) \<and>
   click_close_btn quiet_api (tick quiet_api 3 (showEvent quiet_api 0 (1 / 2) initial_window))
     = tick quiet_api 3 (showEvent quiet_api 0 (1 / 2) initial_window) \<and>
   exit_code (tick quiet_api 3 (showEvent quiet_api 0 (1 / 2) initial_window)) = None \<and>
   exit_code (safe_close quiet_api
     (tick quiet_api 3 (showEvent quiet_api 0 (1 / 2) initial_window))) = Some 0 \<and>
   exit_code (click_close_btn quiet_api (tick quiet_api 5
     (tick quiet_api 3 (showEvent quiet_api 0 (1 / 2) initial_window)))) = Some 0"
proof -
  let ?s0 = "showEvent quiet_api 0 (1 / 2) initial_window"
  have h1: "(1 / 2 :: real) < 0 + of_int (lock_seconds initial_window)" by simp
  have h2: "\<forall>e \<in> set [(quiet_api, 3::real)]. snd e < 0 + of_int (lock_seconds initial_window)"
    by simp
  have h3: "tick quiet_api 3 ?s0 \<in> set (?s0 # ticks [(quiet_api, 3)] ?s0)" by simp
  have h4: "0 + of_int (lock_seconds initial_window) \<le> (5::real)" by simp
  from safe_close_unguarded_dismiss_control_gated
    [OF init_default h1 h2 h3 h4, of quiet_api quiet_api]
  show ?thesis using init_default by simp
qed

end
